theory Spec2Isabelle
  imports Main "HOL-Library.Word" "HOL-Library.Sublist" "HOL-Library.Multiset"
begin

section \<open>The internship page (src/pages/Career.tsx)\<close>

subsection \<open>Strings\<close>

text \<open>
  A JavaScript string is a sequence of 16-bit code units. The literals of the page are
  all in the ASCII range, where a code unit is the character's code; \<open>utf16\<close> writes
  such a literal.
\<close>

type_synonym code_unit = "16 word"
type_synonym jsstring = "code_unit list"

definition utf16 :: "string \<Rightarrow> jsstring" where
  "utf16 s = map (\<lambda>c. of_nat (of_char c)) s"

text \<open>
  \<open>String.prototype.toLowerCase\<close> belongs to the language, not to the page. It
  replaces every code unit by its lower-case mapping from the Unicode tables; the mapping
  may depend on the units before and after (the final sigma, the halves of a surrogate
  pair) and may be longer or shorter than one unit. The table is a parameter of the
  model: what is proved holds for every table.
\<close>

type_synonym case_table = "jsstring \<Rightarrow> code_unit \<Rightarrow> jsstring \<Rightarrow> jsstring"

fun lower_units :: "case_table \<Rightarrow> jsstring \<Rightarrow> jsstring \<Rightarrow> jsstring" where
  "lower_units lc prev [] = []"
| "lower_units lc prev (c # rest) = lc prev c rest @ lower_units lc (prev @ [c]) rest"

definition toLowerCase :: "case_table \<Rightarrow> jsstring \<Rightarrow> jsstring" where
  "toLowerCase lc s = lower_units lc [] s"

text \<open>The table on ASCII strings: \<open>A\<close> to \<open>Z\<close> become \<open>a\<close> to \<open>z\<close>.\<close>

definition ascii_table :: case_table where
  "ascii_table prev c rest = [if 0x41 \<le> c \<and> c \<le> 0x5A then c + 0x20 else c]"

text \<open>
  \<open>String.prototype.includes\<close>: the argument occurs in the string, as a run of
  consecutive code units, at some position.
\<close>

fun startsWith :: "jsstring \<Rightarrow> jsstring \<Rightarrow> bool" where
  "startsWith s [] = True"
| "startsWith [] (q # qs) = False"
| "startsWith (c # s) (q # qs) = (c = q \<and> startsWith s qs)"

fun includes_str :: "jsstring \<Rightarrow> jsstring \<Rightarrow> bool" where
  "includes_str [] q = (q = [])"
| "includes_str (c # s) q = (startsWith (c # s) q \<or> includes_str s q)"

subsection \<open>The entities\<close>

text \<open>
  The interface \<open>Internship\<close> (lines 15 to 21). The field \<open>id\<close> is written
  \<open>id_i\<close> here. The rows that the backend returns carry the other columns of the
  table too; \<open>created_at\<close>, the column the page orders by, is the one the model names.
\<close>

record internship =
  id_i :: jsstring
  title :: jsstring
  company :: jsstring
  description :: "jsstring option"
  duration :: "jsstring option"

record internship_row = internship +
  created_at :: int


subsection \<open>Notifications, backend rows and requests\<close>

text \<open>
  The argument of \<open>toast\<close> (its fields \<open>title\<close> and \<open>description\<close> are written
  \<open>toast_title\<close> and \<open>toast_description\<close>); a toast without a variant is the
  default one. An error object of the backend client carries a message.
\<close>

record notification =
  toast_title :: jsstring
  toast_description :: jsstring
  variant :: "jsstring option"

record js_error =
  message :: jsstring

text \<open>The authenticated user, of whom the page reads \<open>id\<close> (written \<open>id_u\<close>).\<close>

record user =
  id_u :: jsstring

text \<open>The object literal that line 104 to 108 hand to \<open>insert\<close>.\<close>

record application =
  internship_id :: jsstring
  user_id :: jsstring
  status :: jsstring

text \<open>
  What the page asks of the backend: a query built by \<open>from\<close>, \<open>select\<close> and
  \<open>order\<close>, an \<open>insert\<close> of one row into a named table, or \<open>auth.getUser\<close>.
\<close>

record select_query =
  from_table :: jsstring
  select_columns :: jsstring
  order_column :: jsstring
  ascending :: bool

datatype request = SelectRows select_query | InsertRow jsstring application | GetUser

record select_response =
  data :: "internship_row list option"
  error :: "js_error option"

text \<open>The action that \<open>useProtectedAction\<close> keeps while the visitor signs in.\<close>

record pending_action =
  action_type :: jsstring
  action_data :: "internship_row option"

subsection \<open>The state\<close>

text \<open>
  The state variables of the component (lines 33 to 38), the two of the hook
  \<open>useProtectedAction\<close>, what the page has shown and logged, and the backend: who is
  signed in, the two tables and the requests received so far.
\<close>

record world =
  searchQuery :: jsstring
  selectedInternship :: "internship_row option"
  isApplyDialogOpen :: bool
  isDetailsDialogOpen :: bool
  internships :: "internship_row list"
  loading :: bool
  showAuthModal :: bool
  pendingAction :: "pending_action option"
  toasts :: "notification list"
  console :: "(jsstring \<times> js_error) list"
  session :: "user option"
  internships_table :: "internship_row list"
  internship_applications :: "application list"
  requests :: "request list"

text \<open>The values that \<open>useState\<close> gives the component when it mounts.\<close>

definition initialState :: "world \<Rightarrow> world" where
  "initialState w =
     w\<lparr>searchQuery := [], selectedInternship := None, isApplyDialogOpen := False,
       isDetailsDialogOpen := False, internships := [], loading := True\<rparr>"

definition toast :: "notification \<Rightarrow> world \<Rightarrow> world" where
  "toast t w = w\<lparr>toasts := toasts w @ [t]\<rparr>"

subsection \<open>The backend client\<close>

text \<open>
  Modelled from the spec: the client \<open>supabase\<close> of
  \<open>@/integrations/supabase/client\<close> and the backend behind it are not part of the
  source under study. Section 6 of the specification: "Backend reads: select all columns
  from an internships table, ordered by creation time descending. Backend writes: insert
  one row into an applications table." A request either fails, with the error \<open>fault\<close>
  that the caller of the model supplies and with no change to the tables, or is served.
  The client resolves to an object with an \<open>error\<close> field, which is how the page reads
  its result. A served query returns whole rows of the internships table in the order
  asked for; the model answers no other query. A served insert appends the row.
\<close>

definition newest_first :: "internship_row list \<Rightarrow> internship_row list" where
  "newest_first rows = sort_key (\<lambda>r. - created_at r) rows"

definition oldest_first :: "internship_row list \<Rightarrow> internship_row list" where
  "oldest_first rows = sort_key created_at rows"

definition supabase_select ::
    "js_error option \<Rightarrow> select_query \<Rightarrow> world \<Rightarrow> select_response \<times> world" where
  "supabase_select fault q w =
     (let w' = w\<lparr>requests := requests w @ [SelectRows q]\<rparr> in
      case fault of
        Some e \<Rightarrow> (\<lparr>data = None, error = Some e\<rparr>, w')
      | None \<Rightarrow>
          if from_table q = utf16 ''internships'' \<and> select_columns q = utf16 ''*'' \<and>
             order_column q = utf16 ''created_at''
          then (\<lparr>data = Some ((if ascending q then oldest_first else newest_first)
                                 (internships_table w)),
                 error = None\<rparr>, w')
          else (\<lparr>data = None, error = Some \<lparr>message = utf16 ''unsupported query''\<rparr>\<rparr>, w'))"

definition supabase_insert ::
    "js_error option \<Rightarrow> jsstring \<Rightarrow> application \<Rightarrow> world \<Rightarrow> js_error option \<times> world" where
  "supabase_insert fault table row w =
     (let w' = w\<lparr>requests := requests w @ [InsertRow table row]\<rparr> in
      case fault of
        Some e \<Rightarrow> (Some e, w')
      | None \<Rightarrow>
          if table = utf16 ''internship_applications''
          then (None, w'\<lparr>internship_applications := internship_applications w' @ [row]\<rparr>)
          else (Some \<lparr>message = utf16 ''unsupported table''\<rparr>, w'))"

definition auth_getUser :: "world \<Rightarrow> user option \<times> world" where
  "auth_getUser w = (session w, w\<lparr>requests := requests w @ [GetUser]\<rparr>)"

subsection \<open>The gate\<close>

text \<open>
  Modelled from the spec: the hook \<open>useProtectedAction\<close> of
  \<open>@/hooks/useProtectedAction\<close> is not part of the source under study. Section 1 of
  the specification: "a gate that defers a user action until after an authentication
  prompt completes". With nobody signed in, \<open>executeProtectedAction\<close> keeps the action
  and opens the prompt; the callback that line 89 to 91 pass is the path of a visitor who
  is signed in already and has no prompt to wait for. \<open>completePendingAction\<close> hands a
  kept action to its handler once somebody is signed in, and \<open>clearPendingAction\<close>
  drops it.
\<close>

definition executeProtectedAction ::
    "jsstring \<Rightarrow> internship_row \<Rightarrow> (world \<Rightarrow> world) \<Rightarrow> world \<Rightarrow> world" where
  "executeProtectedAction ty d callback w =
     (case session w of
        Some u \<Rightarrow> callback w
      | None \<Rightarrow>
          w\<lparr>pendingAction := Some \<lparr>action_type = ty, action_data = Some d\<rparr>,
            showAuthModal := True\<rparr>)"

definition completePendingAction :: "(pending_action \<Rightarrow> world \<Rightarrow> world) \<Rightarrow> world \<Rightarrow> world" where
  "completePendingAction handler w =
     (case session w of
        None \<Rightarrow> w
      | Some u \<Rightarrow>
          (case pendingAction w of
             None \<Rightarrow> w
           | Some action \<Rightarrow> handler action (w\<lparr>pendingAction := None, showAuthModal := False\<rparr>)))"

definition clearPendingAction :: "world \<Rightarrow> world" where
  "clearPendingAction w = w\<lparr>pendingAction := None\<rparr>"

subsection \<open>The handlers of the page\<close>

text \<open>
  \<open>fetchInternships\<close> (lines 44 to 64). \<open>if (error) throw error\<close> enters the
  \<open>catch\<close> block; \<open>data || []\<close> is the empty list for null data; the \<open>finally\<close> block
  ends both paths.
\<close>

definition fetch_query :: select_query where
  "fetch_query =
     \<lparr>from_table = utf16 ''internships'', select_columns = utf16 ''*'',
      order_column = utf16 ''created_at'', ascending = False\<rparr>"

definition fetch_error_toast :: notification where
  "fetch_error_toast =
     \<lparr>toast_title = utf16 ''Error loading internships'',
      toast_description = utf16 ''Please try again later'',
      variant = Some (utf16 ''destructive'')\<rparr>"

definition fetchInternships :: "js_error option \<Rightarrow> world \<Rightarrow> world" where
  "fetchInternships fault w =
     (let w1 = w\<lparr>loading := True\<rparr>;
          (response, w2) = supabase_select fault fetch_query w1
      in case error response of
           Some e \<Rightarrow>
             (let w3 = w2\<lparr>console := console w2 @ [(utf16 ''Error fetching internships:'', e)]\<rparr>;
                  w4 = toast fetch_error_toast w3
              in w4\<lparr>loading := False\<rparr>)
         | None \<Rightarrow>
             (let w3 = w2\<lparr>internships := (case data response of None \<Rightarrow> [] | Some rows \<Rightarrow> rows)\<rparr>
              in w3\<lparr>loading := False\<rparr>))"

text \<open>The handler that the effect of lines 66 to 73 gives to \<open>completePendingAction\<close>.\<close>

definition resumePendingAction :: "pending_action \<Rightarrow> world \<Rightarrow> world" where
  "resumePendingAction action w =
     (if action_type action = utf16 ''apply_internship''
      then (case action_data action of
              None \<Rightarrow> w
            | Some d \<Rightarrow> w\<lparr>selectedInternship := Some d, isApplyDialogOpen := True\<rparr>)
      else w)"

text \<open>\<open>handleViewDetails\<close> (lines 82 to 85) and \<open>handleApply\<close> (lines 87 to 92).\<close>

definition handleViewDetails :: "internship_row \<Rightarrow> world \<Rightarrow> world" where
  "handleViewDetails internship w =
     w\<lparr>selectedInternship := Some internship, isDetailsDialogOpen := True\<rparr>"

definition handleApply :: "internship_row \<Rightarrow> world \<Rightarrow> world" where
  "handleApply internship w =
     executeProtectedAction (utf16 ''apply_internship'') internship
       (\<lambda>w'. w'\<lparr>isApplyDialogOpen := True\<rparr>)
       (w\<lparr>selectedInternship := Some internship\<rparr>)"

text \<open>
  \<open>handleApplySubmit\<close> (lines 94 to 123). Its first statement, \<open>e.preventDefault()\<close>,
  acts on the form event, which is no part of the state here.
\<close>

definition submit_error_toast :: notification where
  "submit_error_toast =
     \<lparr>toast_title = utf16 ''Error'',
      toast_description = utf16 ''Failed to submit application. Please try again.'',
      variant = Some (utf16 ''destructive'')\<rparr>"

definition submit_success_toast :: "internship_row \<Rightarrow> notification" where
  "submit_success_toast sel =
     \<lparr>toast_title = utf16 ''Application Submitted!'',
      toast_description =
        utf16 ''Your application for '' @ title sel @ utf16 '' has been received.'',
      variant = None\<rparr>"

definition application_row :: "internship_row \<Rightarrow> user \<Rightarrow> application" where
  "application_row sel u =
     \<lparr>internship_id = id_i sel, user_id = id_u u, status = utf16 ''applied''\<rparr>"

definition handleApplySubmit :: "js_error option \<Rightarrow> world \<Rightarrow> world" where
  "handleApplySubmit fault w =
     (case selectedInternship w of
        None \<Rightarrow> w
      | Some sel \<Rightarrow>
          (let (usr, w1) = auth_getUser w in
           case usr of
             None \<Rightarrow> w1
           | Some u \<Rightarrow>
               (let (err, w2) =
                      supabase_insert fault (utf16 ''internship_applications'')
                        (application_row sel u) w1
                in case err of
                     Some e \<Rightarrow> toast submit_error_toast w2
                   | None \<Rightarrow>
                       (let w3 = toast (submit_success_toast sel) w2
                        in w3\<lparr>isApplyDialogOpen := False\<rparr>))))"

text \<open>\<open>handleNotifyMe\<close> (lines 125 to 130).\<close>

definition handleNotifyMe :: "world \<Rightarrow> world" where
  "handleNotifyMe w =
     toast \<lparr>toast_title = utf16 ''You're on the waitlist!'',
            toast_description = utf16 ''We'll notify you when new opportunities are available.'',
            variant = None\<rparr> w"

subsection \<open>The page as a transition system\<close>

text \<open>
  What can happen to the page. Mounting gives the state variables their first values and
  runs the two effects (lines 40 to 42 and 66 to 73); a search input sets the query, the
  button of the empty listing clears it (lines 167 and 185); the buttons of a card and of
  the details dialog (lines 235, 241 and 281 to 284), the form (line 302), the waitlist
  button (line 326), the two dialogs' \<open>onOpenChange\<close> (lines 255 and 294) and the
  prompt's \<open>onClose\<close> (lines 137 to 140) call their handlers. A request of the page
  fails when the event carries an error. Somebody signs in, which runs the effect of lines
  66 to 73 again, or signs out.
\<close>

datatype event =
    Mount "js_error option"
  | SearchInput jsstring
  | ClearSearch
  | ViewDetails internship_row
  | ApplyNow internship_row
  | ApplyFromDetails
  | SubmitApplication "js_error option"
  | NotifyMe
  | DetailsOpenChange bool
  | ApplyOpenChange bool
  | AuthModalClose
  | AuthCompleted user
  | SignedOut

fun step :: "event \<Rightarrow> world \<Rightarrow> world" where
  "step (Mount fault) w =
     completePendingAction resumePendingAction (fetchInternships fault (initialState w))"
| "step (SearchInput q) w = w\<lparr>searchQuery := q\<rparr>"
| "step ClearSearch w = w\<lparr>searchQuery := []\<rparr>"
| "step (ViewDetails i) w = handleViewDetails i w"
| "step (ApplyNow i) w = handleApply i w"
| "step ApplyFromDetails w =
     (case selectedInternship w of
        None \<Rightarrow> w
      | Some i \<Rightarrow> handleApply i (w\<lparr>isDetailsDialogOpen := False\<rparr>))"
| "step (SubmitApplication fault) w = handleApplySubmit fault w"
| "step NotifyMe w = handleNotifyMe w"
| "step (DetailsOpenChange b) w = w\<lparr>isDetailsDialogOpen := b\<rparr>"
| "step (ApplyOpenChange b) w = w\<lparr>isApplyDialogOpen := b\<rparr>"
| "step AuthModalClose w = clearPendingAction (w\<lparr>showAuthModal := False\<rparr>)"
| "step (AuthCompleted u) w = completePendingAction resumePendingAction (w\<lparr>session := Some u\<rparr>)"
| "step SignedOut w = w\<lparr>session := None\<rparr>"

fun run :: "event list \<Rightarrow> world \<Rightarrow> world" where
  "run [] w = w"
| "run (e # es) w = run es (step e w)"

subsection \<open>The search filter (lines 75 to 80)\<close>

text \<open>
  The callback of \<open>filter\<close> returns the value of an \<open>||\<close> chain whose last operand is
  \<open>description && ...\<close>: that operand is \<open>null\<close> for a null description, the empty
  string for an empty one, and a boolean otherwise. \<open>filter\<close> keeps an element when the
  returned value is truthy.
\<close>

datatype js_value = Null | Str jsstring | Bool bool

fun truthy :: "js_value \<Rightarrow> bool" where
  "truthy Null = False"
| "truthy (Str s) = (s \<noteq> [])"
| "truthy (Bool b) = b"

definition matchesSearch :: "case_table \<Rightarrow> jsstring \<Rightarrow> 'a internship_scheme \<Rightarrow> js_value" where
  "matchesSearch lc q i =
     (if includes_str (toLowerCase lc (title i)) (toLowerCase lc q) then Bool True
      else if includes_str (toLowerCase lc (company i)) (toLowerCase lc q) then Bool True
      else (case description i of
              None \<Rightarrow> Null
            | Some d \<Rightarrow>
                if d = [] then Str d
                else Bool (includes_str (toLowerCase lc d) (toLowerCase lc q))))"

definition filteredInternships ::
    "case_table \<Rightarrow> jsstring \<Rightarrow> 'a internship_scheme list \<Rightarrow> 'a internship_scheme list" where
  "filteredInternships lc q rows = filter (\<lambda>i. truthy (matchesSearch lc q i)) rows"

text \<open>
  The specification's reading of the filter: a field contains the query as a
  case-insensitive substring when the lower-cased query is a contiguous part of the
  lower-cased field.
\<close>

definition contains_ci :: "case_table \<Rightarrow> jsstring \<Rightarrow> jsstring \<Rightarrow> bool" where
  "contains_ci lc field q = sublist (toLowerCase lc q) (toLowerCase lc field)"

definition spec_matches :: "case_table \<Rightarrow> jsstring \<Rightarrow> 'a internship_scheme \<Rightarrow> bool" where
  "spec_matches lc q i =
     (contains_ci lc (title i) q \<or> contains_ci lc (company i) q \<or>
      (case description i of None \<Rightarrow> False | Some d \<Rightarrow> contains_ci lc d q))"

subsection \<open>Classifying events and requests\<close>

text \<open>
  The event by which somebody signs in; the event by which the dialog component itself
  asks for the apply dialog to be open; the requests that insert; those that would write
  to the internships table or read the applications table.
\<close>

fun signs_in :: "event \<Rightarrow> bool" where
  "signs_in (AuthCompleted u) = True"
| "signs_in e = False"

fun asks_to_open :: "event \<Rightarrow> bool" where
  "asks_to_open (ApplyOpenChange b) = b"
| "asks_to_open e = False"

fun is_insert :: "request \<Rightarrow> bool" where
  "is_insert (InsertRow t row) = True"
| "is_insert r = False"

fun writes_internships :: "request \<Rightarrow> bool" where
  "writes_internships (InsertRow t row) = (t = utf16 ''internships'')"
| "writes_internships r = False"

fun reads_applications :: "request \<Rightarrow> bool" where
  "reads_applications (SelectRows q) = (from_table q = utf16 ''internship_applications'')"
| "reads_applications r = False"

subsection \<open>Sample data\<close>

text \<open>Three rows and a signed-out visitor's freshly loaded page, for concrete instances.\<close>

definition row_web :: internship_row where
  "row_web =
     \<lparr>id_i = utf16 ''i1'', title = utf16 ''Web Developer'', company = utf16 ''Acme'',
      description = None, duration = Some (utf16 ''3 months''), created_at = 10\<rparr>"

definition row_data :: internship_row where
  "row_data =
     \<lparr>id_i = utf16 ''i2'', title = utf16 ''Data Analyst'', company = utf16 ''Initech'',
      description = Some (utf16 ''Work with the web team''), duration = None, created_at = 30\<rparr>"

definition row_ops :: internship_row where
  "row_ops =
     \<lparr>id_i = utf16 ''i3'', title = utf16 ''Operations'', company = utf16 ''Globex'',
      description = Some [], duration = None, created_at = 20\<rparr>"

definition alice :: user where
  "alice = \<lparr>id_u = utf16 ''u1''\<rparr>"

definition timeout_error :: js_error where
  "timeout_error = \<lparr>message = utf16 ''timeout''\<rparr>"

definition sample_world :: world where
  "sample_world =
     \<lparr>searchQuery = [], selectedInternship = None, isApplyDialogOpen = False,
      isDetailsDialogOpen = False, internships = [], loading = True, showAuthModal = False,
      pendingAction = None, toasts = [], console = [], session = None,
      internships_table = [row_web, row_data, row_ops], internship_applications = [],
      requests = []\<rparr>"

text \<open>The visitor looks at a posting, signed out; and has the apply dialog open, signed in.\<close>

definition viewing :: world where
  "viewing = sample_world\<lparr>selectedInternship := Some row_web, isDetailsDialogOpen := True\<rparr>"

definition applying :: world where
  "applying =
     sample_world\<lparr>selectedInternship := Some row_data, isApplyDialogOpen := True,
       session := Some alice\<rparr>"

subsection \<open>Facts about the strings\<close>

lemma startsWith_prefix: "startsWith s q = prefix q s"
  by (induction s q rule: startsWith.induct) auto

lemma includes_str_sublist: "includes_str s q = sublist q s"
proof (induction s)
  case Nil
  show ?case by simp
next
  case (Cons c s)
  show ?case
    by (simp only: includes_str.simps startsWith_prefix Cons.IH sublist_Cons_right)
qed

lemma toLowerCase_empty: "toLowerCase lc [] = []"
  by (simp add: toLowerCase_def)

lemma includes_str_empty: "includes_str s []"
  by (simp add: includes_str_sublist)

lemma truthy_matchesSearch: "truthy (matchesSearch lc q i) = spec_matches lc q i"
proof (cases "description i")
  case None
  then show ?thesis
    by (simp add: matchesSearch_def spec_matches_def contains_ci_def includes_str_sublist)
next
  case (Some d)
  show ?thesis
  proof (cases "d = []")
    case True
    with Some show ?thesis
      by (auto simp: matchesSearch_def spec_matches_def contains_ci_def includes_str_sublist
          toLowerCase_empty)
  next
    case False
    with Some show ?thesis
      by (simp add: matchesSearch_def spec_matches_def contains_ci_def includes_str_sublist)
  qed
qed

subsection \<open>The search filter\<close>

text \<open>
  C1. For every list of internships and every query, the filtered list consists of exactly
  the internships whose title, company or non-null description contains the query as a
  case-insensitive substring, in the order and number in which the list has them; an
  internship with a null description matches on title or company only. An empty
  description, which the code treats like a null one, changes nothing: only the empty
  query is contained in it, and every title contains that.
\<close>

theorem filteredInternships_exact:
  "filteredInternships lc q rows = filter (spec_matches lc q) rows \<and>
   (i \<in> set (filteredInternships lc q rows)) = (i \<in> set rows \<and> spec_matches lc q i)"
  by (simp add: filteredInternships_def truthy_matchesSearch)

theorem filteredInternships_exact_witness:
  "filteredInternships ascii_table (utf16 ''WEB'') [row_web, row_data, row_ops] = [row_web, row_data] \<and>
   filter (spec_matches ascii_table (utf16 ''WEB'')) [row_web, row_data, row_ops] = [row_web, row_data]"
  using filteredInternships_exact [of ascii_table "utf16 ''WEB''" "[row_web, row_data, row_ops]"]
  by (simp add: filteredInternships_def matchesSearch_def toLowerCase_def ascii_table_def utf16_def
      row_web_def row_data_def row_ops_def)

text \<open>
  C8. With the empty string as the query the filter is the identity: the filtered list is
  the whole list.
\<close>

theorem filteredInternships_empty_query:
  "filteredInternships lc [] rows = rows"
  by (simp add: filteredInternships_def matchesSearch_def toLowerCase_empty includes_str_empty)

text \<open>
  C9. The filtered list is a subsequence of the fetched list: it is obtained by dropping
  entries, so nothing is reordered, duplicated or invented.
\<close>

theorem filteredInternships_subseq:
  "subseq (filteredInternships lc q rows) rows"
  by (simp add: filteredInternships_def)

subsection \<open>What each handler does to the state\<close>

lemmas handler_defs =
  fetchInternships_def supabase_select_def supabase_insert_def auth_getUser_def toast_def
  handleApplySubmit_def handleApply_def handleViewDetails_def handleNotifyMe_def
  executeProtectedAction_def completePendingAction_def clearPendingAction_def
  resumePendingAction_def initialState_def Let_def

lemma newest_first_sorted:
  "sorted_wrt (\<lambda>a b. created_at b \<le> created_at a) (newest_first rows)"
proof -
  have "sorted (map (\<lambda>r. - created_at r) (newest_first rows))"
    unfolding newest_first_def by (rule sorted_sort_key)
  then show ?thesis by (simp add: sorted_map)
qed

lemma newest_first_mset: "mset (newest_first rows) = mset rows"
  by (simp add: newest_first_def)

lemma fetchInternships_served:
  "fetchInternships None w =
     w\<lparr>internships := newest_first (internships_table w), loading := False,
       requests := requests w @ [SelectRows fetch_query]\<rparr>"
  by (simp add: fetchInternships_def supabase_select_def fetch_query_def Let_def)

lemma fetchInternships_failed:
  "fetchInternships (Some e) w =
     w\<lparr>console := console w @ [(utf16 ''Error fetching internships:'', e)],
       toasts := toasts w @ [fetch_error_toast], loading := False,
       requests := requests w @ [SelectRows fetch_query]\<rparr>"
  by (simp add: fetchInternships_def supabase_select_def toast_def Let_def)

lemma internships_completePendingAction:
  "internships (completePendingAction resumePendingAction w) = internships w"
  by (simp add: completePendingAction_def resumePendingAction_def split: option.splits)

lemma handleApplySubmit_nothing_selected:
  "selectedInternship w = None \<Longrightarrow> handleApplySubmit fault w = w"
  by (simp add: handleApplySubmit_def)

lemma handleApplySubmit_signed_out:
  "selectedInternship w = Some sel \<Longrightarrow> session w = None \<Longrightarrow>
   handleApplySubmit fault w = w\<lparr>requests := requests w @ [GetUser]\<rparr>"
  by (simp add: handleApplySubmit_def auth_getUser_def)

lemma handleApplySubmit_accepted:
  "selectedInternship w = Some sel \<Longrightarrow> session w = Some u \<Longrightarrow>
   handleApplySubmit None w =
     w\<lparr>isApplyDialogOpen := False,
       toasts := toasts w @ [submit_success_toast sel],
       internship_applications := internship_applications w @ [application_row sel u],
       requests := requests w @
         [GetUser, InsertRow (utf16 ''internship_applications'') (application_row sel u)]\<rparr>"
  by (simp add: handleApplySubmit_def auth_getUser_def supabase_insert_def toast_def Let_def)

lemma handleApplySubmit_rejected:
  "selectedInternship w = Some sel \<Longrightarrow> session w = Some u \<Longrightarrow>
   handleApplySubmit (Some e) w =
     w\<lparr>toasts := toasts w @ [submit_error_toast],
       requests := requests w @
         [GetUser, InsertRow (utf16 ''internship_applications'') (application_row sel u)]\<rparr>"
  by (simp add: handleApplySubmit_def auth_getUser_def supabase_insert_def toast_def Let_def)

subsection \<open>Fetching\<close>

text \<open>
  C4. The fetch asks for all columns (\<open>*\<close>) of the internships table, ordered by
  \<open>created_at\<close>, not ascending. When the backend serves the query, the list in memory
  holds every row of the table, each once and whole, and is ordered by creation time
  descending: no entry is older than one after it.
\<close>

theorem fetchInternships_newest_first:
  "requests (fetchInternships None w) = requests w @ [SelectRows fetch_query] \<and>
   from_table fetch_query = utf16 ''internships'' \<and>
   select_columns fetch_query = utf16 ''*'' \<and>
   order_column fetch_query = utf16 ''created_at'' \<and> \<not> ascending fetch_query \<and>
   mset (internships (fetchInternships None w)) = mset (internships_table w) \<and>
   sorted_wrt (\<lambda>a b. created_at b \<le> created_at a) (internships (fetchInternships None w))"
  by (simp add: fetchInternships_served newest_first_sorted newest_first_mset fetch_query_def)

theorem fetchInternships_newest_first_witness:
  "internships (fetchInternships None sample_world) = [row_data, row_ops, row_web]"
  using fetchInternships_newest_first [of sample_world]
  by (simp add: fetchInternships_served newest_first_def sample_world_def
      row_web_def row_data_def row_ops_def)

text \<open>
  C5. When the fetch fails, the error is logged on the console, one notification of the
  destructive variant with a fixed text is shown, and the list of internships is left as
  it was; after mounting, when the fetch runs, that is the empty list, so nothing is
  listed whatever the query.
\<close>

theorem fetchInternships_failure:
  "console (fetchInternships (Some e) w) =
     console w @ [(utf16 ''Error fetching internships:'', e)] \<and>
   toasts (fetchInternships (Some e) w) = toasts w @ [fetch_error_toast] \<and>
   variant fetch_error_toast = Some (utf16 ''destructive'') \<and>
   internships (fetchInternships (Some e) w) = internships w \<and>
   internships (step (Mount (Some e)) w) = [] \<and>
   filteredInternships lc q (internships (step (Mount (Some e)) w)) = []"
  by (simp add: fetchInternships_failed internships_completePendingAction initialState_def
      fetch_error_toast_def filteredInternships_def)

subsection \<open>Submitting an application\<close>

text \<open>
  C2. Submitting with an internship selected and a user signed in sends exactly one
  insert, into the applications table, of the row made of the selected internship's
  identifier, the user's identifier and the status \<open>applied\<close>; when the backend serves
  it, the table has grown by exactly that row.
\<close>

theorem handleApplySubmit_inserts_one_row:
  assumes "selectedInternship w = Some sel" and "session w = Some u"
  shows "requests (handleApplySubmit fault w) =
           requests w @ [GetUser, InsertRow (utf16 ''internship_applications'')
              \<lparr>internship_id = id_i sel, user_id = id_u u, status = utf16 ''applied''\<rparr>] \<and>
         internship_applications (handleApplySubmit None w) =
           internship_applications w @
             [\<lparr>internship_id = id_i sel, user_id = id_u u, status = utf16 ''applied''\<rparr>]"
proof (cases fault)
  case None
  with assms show ?thesis
    by (simp add: handleApplySubmit_accepted application_row_def)
next
  case (Some e)
  with assms show ?thesis
    by (simp add: handleApplySubmit_accepted handleApplySubmit_rejected application_row_def)
qed

theorem handleApplySubmit_inserts_one_row_witness:
  "selectedInternship applying = Some row_data \<and> session applying = Some alice \<and>
   requests (handleApplySubmit None applying) =
     [GetUser, InsertRow (utf16 ''internship_applications'')
        \<lparr>internship_id = utf16 ''i2'', user_id = utf16 ''u1'', status = utf16 ''applied''\<rparr>] \<and>
   internship_applications (handleApplySubmit None applying) =
     [\<lparr>internship_id = utf16 ''i2'', user_id = utf16 ''u1'', status = utf16 ''applied''\<rparr>]"
proof -
  have sel: "selectedInternship applying = Some row_data"
    by (simp add: applying_def)
  have usr: "session applying = Some alice"
    by (simp add: applying_def)
  show ?thesis
    using sel usr handleApplySubmit_inserts_one_row [OF sel usr, of None]
    by (simp add: applying_def sample_world_def row_data_def alice_def)
qed

text \<open>
  C6. When the insert fails, one notification of the destructive variant is shown, which
  is not the success notification; the insert was sent once and is not sent again; the
  apply dialog stays as it was and the table has no new row.
\<close>

theorem handleApplySubmit_insert_failure:
  assumes "selectedInternship w = Some sel" and "session w = Some u"
  shows "toasts (handleApplySubmit (Some e) w) = toasts w @ [submit_error_toast] \<and>
         variant submit_error_toast = Some (utf16 ''destructive'') \<and>
         submit_error_toast \<noteq> submit_success_toast sel \<and>
         requests (handleApplySubmit (Some e) w) =
           requests w @
             [GetUser, InsertRow (utf16 ''internship_applications'') (application_row sel u)] \<and>
         isApplyDialogOpen (handleApplySubmit (Some e) w) = isApplyDialogOpen w \<and>
         internship_applications (handleApplySubmit (Some e) w) = internship_applications w"
  using assms
  by (simp add: handleApplySubmit_rejected submit_error_toast_def submit_success_toast_def)

theorem handleApplySubmit_insert_failure_witness:
  "selectedInternship applying = Some row_data \<and> session applying = Some alice \<and>
   toasts (handleApplySubmit (Some timeout_error) applying) = [submit_error_toast] \<and>
   isApplyDialogOpen (handleApplySubmit (Some timeout_error) applying) \<and>
   internship_applications (handleApplySubmit (Some timeout_error) applying) = []"
proof -
  have sel: "selectedInternship applying = Some row_data"
    by (simp add: applying_def)
  have usr: "session applying = Some alice"
    by (simp add: applying_def)
  show ?thesis
    using sel usr handleApplySubmit_insert_failure [OF sel usr, of timeout_error]
    by (simp add: applying_def sample_world_def)
qed

text \<open>
  C10. Submitting with no internship selected, or with nobody signed in, changes nothing:
  the whole state is as before, but for the request for the user that the second case has
  sent. No row is inserted and no insert is sent, no notification is shown, and the
  dialogs and the prompt stay as they were.
\<close>

theorem handleApplySubmit_noop:
  assumes "selectedInternship w = None \<or> session w = None"
  shows "handleApplySubmit fault w =
           (if selectedInternship w = None then w
            else w\<lparr>requests := requests w @ [GetUser]\<rparr>) \<and>
         internship_applications (handleApplySubmit fault w) = internship_applications w \<and>
         filter is_insert (requests (handleApplySubmit fault w)) =
           filter is_insert (requests w) \<and>
         toasts (handleApplySubmit fault w) = toasts w \<and>
         isApplyDialogOpen (handleApplySubmit fault w) = isApplyDialogOpen w \<and>
         isDetailsDialogOpen (handleApplySubmit fault w) = isDetailsDialogOpen w \<and>
         showAuthModal (handleApplySubmit fault w) = showAuthModal w"
proof (cases "selectedInternship w")
  case None
  then show ?thesis
    by (simp add: handleApplySubmit_nothing_selected)
next
  case (Some sel)
  with assms have "session w = None"
    by simp
  with Some show ?thesis
    by (simp add: handleApplySubmit_signed_out)
qed

theorem handleApplySubmit_noop_witness:
  "(selectedInternship viewing = None \<or> session viewing = None) \<and>
   handleApplySubmit None viewing = viewing\<lparr>requests := [GetUser]\<rparr> \<and>
   handleApplySubmit None sample_world = sample_world"
proof -
  have a: "selectedInternship viewing = None \<or> session viewing = None"
    by (simp add: viewing_def sample_world_def)
  have b: "selectedInternship sample_world = None \<or> session sample_world = None"
    by (simp add: sample_world_def)
  show ?thesis
    using a handleApplySubmit_noop [OF a, of None] handleApplySubmit_noop [OF b, of None]
    by (simp add: viewing_def sample_world_def)
qed

subsection \<open>The gate before applying\<close>

lemma step_stays_signed_out:
  "session w = None \<Longrightarrow> \<not> signs_in e \<Longrightarrow> session (step e w) = None"
  by (cases e) (simp_all add: handler_defs split: option.splits)

lemma step_dialog_stays_closed:
  "session w = None \<Longrightarrow> \<not> isApplyDialogOpen w \<Longrightarrow> \<not> signs_in e \<Longrightarrow> \<not> asks_to_open e \<Longrightarrow>
   \<not> isApplyDialogOpen (step e w)"
  by (cases e) (simp_all add: handler_defs split: option.splits)

lemma run_dialog_stays_closed:
  "session w = None \<Longrightarrow> \<not> isApplyDialogOpen w \<Longrightarrow>
   \<forall>e\<in>set evs. \<not> signs_in e \<and> \<not> asks_to_open e \<Longrightarrow>
   \<not> isApplyDialogOpen (run evs w)"
proof (induction evs arbitrary: w)
  case Nil
  then show ?case by simp
next
  case (Cons e evs)
  have "session (step e w) = None"
    using Cons.prems by (simp add: step_stays_signed_out)
  moreover have "\<not> isApplyDialogOpen (step e w)"
    using Cons.prems by (simp add: step_dialog_stays_closed)
  ultimately show ?case
    using Cons.IH [of "step e w"] Cons.prems by simp
qed

lemma step_insert_needs_user:
  "internship_applications (step e w) \<noteq> internship_applications w \<or>
   filter is_insert (requests (step e w)) \<noteq> filter is_insert (requests w) \<Longrightarrow>
   (\<exists>fault. e = SubmitApplication fault) \<and> session w \<noteq> None"
  by (cases e) (auto simp: handler_defs split: option.splits if_splits)

lemma run_insert_needs_user:
  "internship_applications (run evs w) \<noteq> internship_applications w \<or>
   filter is_insert (requests (run evs w)) \<noteq> filter is_insert (requests w) \<Longrightarrow>
   \<exists>es fault. prefix (es @ [SubmitApplication fault]) evs \<and> session (run es w) \<noteq> None"
proof (induction evs arbitrary: w)
  case Nil
  then show ?case by simp
next
  case (Cons e evs)
  show ?case
  proof (cases "internship_applications (step e w) \<noteq> internship_applications w \<or>
      filter is_insert (requests (step e w)) \<noteq> filter is_insert (requests w)")
    case True
    then obtain fault where "e = SubmitApplication fault" and "session w \<noteq> None"
      using step_insert_needs_user by blast
    then have "prefix ([] @ [SubmitApplication fault]) (e # evs) \<and> session (run [] w) \<noteq> None"
      by simp
    then show ?thesis by blast
  next
    case False
    with Cons.prems
    have "internship_applications (run evs (step e w)) \<noteq> internship_applications (step e w) \<or>
      filter is_insert (requests (run evs (step e w))) \<noteq> filter is_insert (requests (step e w))"
      by auto
    then obtain es fault where "prefix (es @ [SubmitApplication fault]) evs"
      and "session (run es (step e w)) \<noteq> None"
      using Cons.IH by blast
    then have "prefix ((e # es) @ [SubmitApplication fault]) (e # evs) \<and>
      session (run (e # es) w) \<noteq> None"
      by simp
    then show ?thesis by blast
  qed
qed

lemma handleApply_signed_out:
  "session w = None \<Longrightarrow>
   handleApply i w =
     w\<lparr>selectedInternship := Some i,
       pendingAction := Some \<lparr>action_type = utf16 ''apply_internship'', action_data = Some i\<rparr>,
       showAuthModal := True\<rparr>"
  by (simp add: handleApply_def executeProtectedAction_def)

lemma completed_after_apply:
  "session w = None \<Longrightarrow>
   step (AuthCompleted u) (step (ApplyNow i) w) =
     w\<lparr>selectedInternship := Some i, isApplyDialogOpen := True, pendingAction := None,
       showAuthModal := False, session := Some u\<rparr>"
  by (simp add: handleApply_signed_out completePendingAction_def resumePendingAction_def)

text \<open>
  C3. Applying is gated. With nobody signed in, pressing apply does not open the apply
  dialog: it opens the authentication prompt and keeps the action; the dialog then stays
  closed through whatever happens, as long as nobody signs in (and the dialog component
  does not itself ask to be opened), and it opens, for the chosen internship, when the
  prompt completes. And whenever a run of the page has added a row to the applications
  table, or has sent an insert at all, some submission of that run took place with a user
  signed in at that moment.
\<close>

theorem apply_is_gated:
  assumes "session w = None"
  shows "isApplyDialogOpen (step (ApplyNow i) w) = isApplyDialogOpen w \<and>
         showAuthModal (step (ApplyNow i) w) \<and>
         pendingAction (step (ApplyNow i) w) =
           Some \<lparr>action_type = utf16 ''apply_internship'', action_data = Some i\<rparr> \<and>
         (\<not> isApplyDialogOpen w \<and> (\<forall>e\<in>set evs. \<not> signs_in e \<and> \<not> asks_to_open e) \<longrightarrow>
            \<not> isApplyDialogOpen (run (ApplyNow i # evs) w)) \<and>
         isApplyDialogOpen (step (AuthCompleted u) (step (ApplyNow i) w)) \<and>
         selectedInternship (step (AuthCompleted u) (step (ApplyNow i) w)) = Some i \<and>
         (internship_applications (run evs' w') \<noteq> internship_applications w' \<or>
          filter is_insert (requests (run evs' w')) \<noteq> filter is_insert (requests w') \<longrightarrow>
            (\<exists>es fault. prefix (es @ [SubmitApplication fault]) evs' \<and> session (run es w') \<noteq> None))"
proof -
  have applied: "step (ApplyNow i) w =
     w\<lparr>selectedInternship := Some i,
       pendingAction := Some \<lparr>action_type = utf16 ''apply_internship'', action_data = Some i\<rparr>,
       showAuthModal := True\<rparr>"
    using assms by (simp add: handleApply_signed_out)
  have completed: "step (AuthCompleted u) (step (ApplyNow i) w) =
     w\<lparr>selectedInternship := Some i, isApplyDialogOpen := True, pendingAction := None,
       showAuthModal := False, session := Some u\<rparr>"
    using assms by (rule completed_after_apply)
  have p1: "isApplyDialogOpen (step (ApplyNow i) w) = isApplyDialogOpen w"
    and p2: "showAuthModal (step (ApplyNow i) w)"
    and p3: "pendingAction (step (ApplyNow i) w) =
           Some \<lparr>action_type = utf16 ''apply_internship'', action_data = Some i\<rparr>"
    by (simp_all only: applied) simp_all
  have p4: "\<not> isApplyDialogOpen w \<and> (\<forall>e\<in>set evs. \<not> signs_in e \<and> \<not> asks_to_open e) \<longrightarrow>
            \<not> isApplyDialogOpen (run (ApplyNow i # evs) w)"
  proof
    assume h: "\<not> isApplyDialogOpen w \<and> (\<forall>e\<in>set evs. \<not> signs_in e \<and> \<not> asks_to_open e)"
    then have "\<forall>e\<in>set (ApplyNow i # evs). \<not> signs_in e \<and> \<not> asks_to_open e"
      by simp
    with assms h show "\<not> isApplyDialogOpen (run (ApplyNow i # evs) w)"
      using run_dialog_stays_closed by blast
  qed
  have p5: "isApplyDialogOpen (step (AuthCompleted u) (step (ApplyNow i) w))"
    and p6: "selectedInternship (step (AuthCompleted u) (step (ApplyNow i) w)) = Some i"
    by (simp_all only: completed) simp_all
  have p7: "internship_applications (run evs' w') \<noteq> internship_applications w' \<or>
          filter is_insert (requests (run evs' w')) \<noteq> filter is_insert (requests w') \<longrightarrow>
            (\<exists>es fault. prefix (es @ [SubmitApplication fault]) evs' \<and> session (run es w') \<noteq> None)"
    using run_insert_needs_user [of evs' w'] by blast
  from p1 p2 p3 p4 p5 p6 p7 show ?thesis
    by (intro conjI)
qed

theorem apply_is_gated_witness:
  "session sample_world = None \<and>
   \<not> isApplyDialogOpen (run [ApplyNow row_data, SubmitApplication None, AuthModalClose] sample_world) \<and>
   isApplyDialogOpen (step (AuthCompleted alice) (step (ApplyNow row_data) sample_world)) \<and>
   internship_applications
     (run [ApplyNow row_data, AuthCompleted alice, SubmitApplication None] sample_world) \<noteq>
   internship_applications sample_world \<and>
   (\<exists>es fault. prefix (es @ [SubmitApplication fault])
        [ApplyNow row_data, AuthCompleted alice, SubmitApplication None] \<and>
      session (run es sample_world) \<noteq> None)"
proof -
  have so: "session sample_world = None"
    by (simp add: sample_world_def)
  have ins: "internship_applications
     (run [ApplyNow row_data, AuthCompleted alice, SubmitApplication None] sample_world) \<noteq>
   internship_applications sample_world"
    by (simp add: handler_defs sample_world_def)
  show ?thesis
    using so ins
      apply_is_gated [OF so, of row_data "[SubmitApplication None, AuthModalClose]" alice
        "[ApplyNow row_data, AuthCompleted alice, SubmitApplication None]" sample_world]
    by (simp add: sample_world_def del: run.simps step.simps)
qed

subsection \<open>Which table is read and which is written\<close>

lemma step_requests:
  "\<exists>rs. requests (step e w) = requests w @ rs \<and>
        (\<forall>r\<in>set rs. \<not> writes_internships r \<and> \<not> reads_applications r)"
  by (cases e) (auto simp: handler_defs fetch_query_def utf16_def split: option.splits)

lemma step_internships_table: "internships_table (step e w) = internships_table w"
  by (cases e) (auto simp: handler_defs split: option.splits)

lemma run_internships_table: "internships_table (run evs w) = internships_table w"
  by (induction evs arbitrary: w) (simp_all add: step_internships_table)

lemma run_requests:
  "\<exists>rs. requests (run evs w) = requests w @ rs \<and>
        (\<forall>r\<in>set rs. \<not> writes_internships r \<and> \<not> reads_applications r)"
proof (induction evs arbitrary: w)
  case Nil
  then show ?case by simp
next
  case (Cons e evs)
  obtain rs where rs: "requests (step e w) = requests w @ rs"
    "\<forall>r\<in>set rs. \<not> writes_internships r \<and> \<not> reads_applications r"
    using step_requests by blast
  obtain rs' where rs': "requests (run evs (step e w)) = requests (step e w) @ rs'"
    "\<forall>r\<in>set rs'. \<not> writes_internships r \<and> \<not> reads_applications r"
    using Cons.IH by blast
  have "requests (run (e # evs) w) = requests w @ (rs @ rs')"
    using rs(1) rs'(1) by simp
  moreover have "\<forall>r\<in>set (rs @ rs'). \<not> writes_internships r \<and> \<not> reads_applications r"
    using rs(2) rs'(2) by auto
  ultimately show ?case by blast
qed

text \<open>
  C7. Whatever happens on the page, the internships table stays as it was, and none of the
  requests that the page sends writes to the internships table or reads the applications
  table: internships are only read, applications only written.
\<close>

theorem page_reads_internships_writes_applications:
  "internships_table (run evs w) = internships_table w \<and>
   (\<exists>rs. requests (run evs w) = requests w @ rs \<and>
         (\<forall>r\<in>set rs. \<not> writes_internships r \<and> \<not> reads_applications r))"
  using run_requests [of evs w] by (simp add: run_internships_table)

theorem page_reads_internships_writes_applications_witness:
  "requests (run [Mount None, ApplyNow row_data, AuthCompleted alice, SubmitApplication None]
      sample_world) =
     [SelectRows fetch_query, GetUser,
      InsertRow (utf16 ''internship_applications'') (application_row row_data alice)] \<and>
   internships_table (run [Mount None, ApplyNow row_data, AuthCompleted alice, SubmitApplication None]
      sample_world) = [row_web, row_data, row_ops]"
  using page_reads_internships_writes_applications
    [of "[Mount None, ApplyNow row_data, AuthCompleted alice, SubmitApplication None]" sample_world]
  by (simp add: handler_defs fetch_query_def sample_world_def)

end
